theory Spec2Isabelle
  imports Complex_Main "HOL-Library.Char_ord" "HOL-Library.List_Lexorder"
begin

section \<open>Python floats\<close>

text \<open>
  The masses and ratios of \<^verbatim>\<open>app.py\<close> are Python floats, that is IEEE 754 binary64
  numbers. A finite float is modelled by the rational number it denotes; the two
  infinities and NaN are constructors of their own. The sign of a zero is not kept:
  the program only compares and multiplies, and Python's \<^verbatim>\<open>==\<close> and \<^verbatim>\<open><\<close> do not
  tell \<^verbatim>\<open>-0.0\<close> from \<^verbatim>\<open>0.0\<close>.
\<close>

datatype f64 = Fin rat | PInf | NInf | NaN

text \<open>Number of binary digits of a natural number.\<close>

fun bitlen :: "nat \<Rightarrow> nat" where
  "bitlen n = (if n = 0 then 0 else Suc (bitlen (n div 2)))"

declare bitlen.simps [simp del]

definition pow2 :: "int \<Rightarrow> rat" where
  "pow2 e = (if 0 \<le> e then 2 ^ nat e else 1 / 2 ^ nat (- e))"

text \<open>\<open>ilog2 a\<close> is the binary exponent of a positive rational: \<open>2 ^ ilog2 a \<le> a < 2 ^ (ilog2 a + 1)\<close>.\<close>

definition ilog2 :: "rat \<Rightarrow> int" where
  "ilog2 a = (if 1 \<le> a then int (bitlen (nat \<lfloor>a\<rfloor>)) - 1
              else - int (bitlen (nat (- \<lfloor>- (1 / a)\<rfloor> - 1))))"

definition round_half_even :: "rat \<Rightarrow> int" where
  "round_half_even s = (let f = \<lfloor>s\<rfloor>; r = s - of_int f
     in if r < 1 / 2 then f else if 1 / 2 < r then f + 1
        else if even f then f else f + 1)"

text \<open>
  Rounding of an exact result to binary64, to nearest with ties to even: 53 significant
  bits, the exponent of the last bit no smaller than \<open>-1074\<close> (subnormal numbers), and
  overflow to an infinity from \<open>2 ^ 1024\<close> on.
\<close>

definition round64 :: "rat \<Rightarrow> f64" where
  "round64 q = (if q = 0 then Fin 0 else
     (let a = \<bar>q\<bar>; e = max (ilog2 a - 52) (- 1074);
          m = round_half_even (a / pow2 e); r = of_int m * pow2 e
      in if 2 ^ 1024 \<le> r then (if 0 < q then PInf else NInf)
         else Fin (if 0 < q then r else - r)))"

text \<open>A float literal of the source, such as \<^verbatim>\<open>0.70\<close>, is the decimal rounded to binary64.\<close>

definition float_lit :: "rat \<Rightarrow> f64" where
  "float_lit q = round64 q"

text \<open>The finite values that are binary64 numbers.\<close>

definition is_f64 :: "f64 \<Rightarrow> bool" where
  "is_f64 x = (case x of Fin q \<Rightarrow> round64 q = Fin q | _ \<Rightarrow> True)"

fun fsub :: "f64 \<Rightarrow> f64 \<Rightarrow> f64" where
  "fsub (Fin a) (Fin b) = round64 (a - b)"
| "fsub NaN y = NaN"
| "fsub x NaN = NaN"
| "fsub PInf PInf = NaN"
| "fsub NInf NInf = NaN"
| "fsub PInf y = PInf"
| "fsub NInf y = NInf"
| "fsub (Fin a) PInf = NInf"
| "fsub (Fin a) NInf = PInf"

fun fadd :: "f64 \<Rightarrow> f64 \<Rightarrow> f64" where
  "fadd (Fin a) (Fin b) = round64 (a + b)"
| "fadd NaN y = NaN"
| "fadd x NaN = NaN"
| "fadd PInf NInf = NaN"
| "fadd NInf PInf = NaN"
| "fadd PInf y = PInf"
| "fadd NInf y = NInf"
| "fadd (Fin a) PInf = PInf"
| "fadd (Fin a) NInf = NInf"

fun fmul :: "f64 \<Rightarrow> f64 \<Rightarrow> f64" where
  "fmul (Fin a) (Fin b) = round64 (a * b)"
| "fmul NaN y = NaN"
| "fmul x NaN = NaN"
| "fmul PInf PInf = PInf"
| "fmul PInf NInf = NInf"
| "fmul NInf PInf = NInf"
| "fmul NInf NInf = PInf"
| "fmul PInf (Fin b) = (if b = 0 then NaN else if 0 < b then PInf else NInf)"
| "fmul NInf (Fin b) = (if b = 0 then NaN else if 0 < b then NInf else PInf)"
| "fmul (Fin a) PInf = (if a = 0 then NaN else if 0 < a then PInf else NInf)"
| "fmul (Fin a) NInf = (if a = 0 then NaN else if 0 < a then NInf else PInf)"

text \<open>Python's \<^verbatim>\<open>x < y\<close> and \<^verbatim>\<open>x == y\<close> on floats: every comparison with NaN is false.\<close>

fun flt :: "f64 \<Rightarrow> f64 \<Rightarrow> bool" where
  "flt (Fin a) (Fin b) = (a < b)"
| "flt NaN y = False"
| "flt x NaN = False"
| "flt x NInf = False"
| "flt NInf y = True"
| "flt PInf y = False"
| "flt (Fin a) PInf = True"

fun feq :: "f64 \<Rightarrow> f64 \<Rightarrow> bool" where
  "feq (Fin a) (Fin b) = (a = b)"
| "feq PInf PInf = True"
| "feq NInf NInf = True"
| "feq x y = False"

definition fgt :: "f64 \<Rightarrow> f64 \<Rightarrow> bool" where
  "fgt x y = flt y x"

definition fge :: "f64 \<Rightarrow> f64 \<Rightarrow> bool" where
  "fge x y = (flt y x \<or> feq x y)"

section \<open>The store\<close>

text \<open>
  The two tables of \<^verbatim>\<open>init_db\<close>. A \<^verbatim>\<open>SERIAL\<close> key is drawn from a sequence that only
  grows, so the store keeps the last value given out for each table. \<^verbatim>\<open>client_name\<close> is
  the one nullable column.
\<close>

record cartridge_type =
  ct_id :: int
  ct_name :: string
  ct_full_gas_mass :: f64
  ct_empty_mass :: f64
  ct_color :: string
  ct_butane :: f64
  ct_propane :: f64

record transaction =
  t_id :: int
  t_date :: string
  t_cartridge_type_id :: int
  t_color :: string
  t_measured_weight :: f64
  t_gas_mass :: f64
  t_missing_gas :: f64
  t_butane_to_add :: f64
  t_propane_to_add :: f64
  t_client_name :: "string option"

record db =
  cartridge_types :: "cartridge_type list"
  cartridge_types_id_seq :: int
  transactions :: "transaction list"
  transactions_id_seq :: int

definition empty_db :: db where
  "empty_db = \<lparr>cartridge_types = [], cartridge_types_id_seq = 0,
               transactions = [], transactions_id_seq = 0\<rparr>"

section \<open>Statements and their parameters\<close>

text \<open>
  \<^verbatim>\<open>cursor.execute(query, args)\<close> first merges the argument tuple into the query text,
  one argument for each \<^verbatim>\<open>%s\<close>. With arguments left over psycopg2 raises
  \<^verbatim>\<open>TypeError\<close> (not all arguments converted during string formatting), with too few
  \<^verbatim>\<open>IndexError\<close>; in both cases nothing has been sent to the server. The server
  rejects an \<^verbatim>\<open>INSERT\<close> whose value list is not as long as its column list
  (\<^verbatim>\<open>ProgrammingError\<close>).
\<close>

datatype py_exception = TypeError | IndexError | ProgrammingError

datatype sql_value = SText string | SInt int | SReal f64

fun count_placeholders :: "string \<Rightarrow> nat" where
  "count_placeholders [] = 0"
| "count_placeholders [c] = 0"
| "count_placeholders (c # d # cs) =
     (if c = CHR ''%''
      then (if d = CHR ''s'' then Suc (count_placeholders cs) else count_placeholders cs)
      else count_placeholders (d # cs))"

definition mogrify :: "string \<Rightarrow> sql_value list \<Rightarrow> py_exception + unit" where
  "mogrify query args =
     (let n = count_placeholders query
      in if length args < n then Inl IndexError
         else if n < length args then Inl TypeError
         else Inr ())"

definition insert_cartridge_type_sql :: string where
  "insert_cartridge_type_sql =
     ''INSERT INTO cartridge_types (name, full_gas_mass, empty_mass, color, butane, propane) VALUES (%s, %s, %s, %s, %s, %s)''"



definition insert_transaction_sql :: string where
  "insert_transaction_sql =
     ''INSERT INTO transactions (date, cartridge_type_id, color, measured_weight, gas_mass, missing_gas, butane_to_add, propane_to_add, client_name) VALUES (%s, %s, %s, %s, %s, %s)''"

definition delete_transaction_sql :: string where
  "delete_transaction_sql = ''DELETE FROM transactions WHERE id=%s''"


text \<open>
  An \<^verbatim>\<open>INSERT\<close> statement with \<open>ncols\<close> target columns: the parameters are merged,
  the server checks the value list against the column list, and only then is the row
  made by \<open>ins\<close> added.
\<close>

definition execute_insert :: "string \<Rightarrow> nat \<Rightarrow> sql_value list \<Rightarrow> db \<Rightarrow> py_exception + db" where
  "execute_insert query ncols args d =
     (case mogrify query args of
        Inl ex \<Rightarrow> Inl ex
      | Inr _ \<Rightarrow> if count_placeholders query \<noteq> ncols then Inl ProgrammingError else Inr d)"

section \<open>The catalog\<close>

definition insert_cartridge_type ::
  "db \<Rightarrow> string \<Rightarrow> f64 \<Rightarrow> f64 \<Rightarrow> string \<Rightarrow> f64 \<Rightarrow> f64 \<Rightarrow> py_exception + db" where
  "insert_cartridge_type d name full_gas_mass empty_mass color butane propane =
     (case execute_insert insert_cartridge_type_sql 6
             [SText name, SReal full_gas_mass, SReal empty_mass, SText color,
              SReal butane, SReal propane] d of
        Inl ex \<Rightarrow> Inl ex
      | Inr _ \<Rightarrow>
          Inr (d\<lparr>cartridge_types := cartridge_types d @
                   [\<lparr>ct_id = cartridge_types_id_seq d + 1, ct_name = name,
                     ct_full_gas_mass = full_gas_mass, ct_empty_mass = empty_mass,
                     ct_color = color, ct_butane = butane, ct_propane = propane\<rparr>],
                 cartridge_types_id_seq := cartridge_types_id_seq d + 1\<rparr>))"

definition default_types :: "(string \<times> f64 \<times> f64 \<times> string \<times> f64 \<times> f64) list" where
  "default_types =
     [(''Type A'', float_lit 400, float_lit 200, ''Bleu'', float_lit (70 / 100), float_lit (30 / 100)),
      (''Type B'', float_lit 500, float_lit 250, ''Rouge'', float_lit (60 / 100), float_lit (40 / 100)),
      (''Type C'', float_lit 450, float_lit 220, ''Bleu'', float_lit (70 / 100), float_lit (30 / 100)),
      (''Type D'', float_lit 600, float_lit 300, ''Rouge'', float_lit (60 / 100), float_lit (40 / 100)),
      (''Type E'', float_lit 550, float_lit 280, ''Bleu'', float_lit (70 / 100), float_lit (30 / 100))]"

text \<open>\<^verbatim>\<open>executemany\<close> runs the statement once for each tuple and stops at the first exception.\<close>

fun executemany_insert_cartridge_type ::
  "db \<Rightarrow> (string \<times> f64 \<times> f64 \<times> string \<times> f64 \<times> f64) list \<Rightarrow> py_exception + db" where
  "executemany_insert_cartridge_type d [] = Inr d"
| "executemany_insert_cartridge_type d ((n, f, e, c, b, p) # rows) =
     (case insert_cartridge_type d n f e c b p of
        Inl ex \<Rightarrow> Inl ex
      | Inr d' \<Rightarrow> executemany_insert_cartridge_type d' rows)"

definition add_default_cartridge_types :: "db \<Rightarrow> py_exception + db" where
  "add_default_cartridge_types d =
     (let count = length (cartridge_types d)
      in if count = 0 then executemany_insert_cartridge_type d default_types else Inr d)"

text \<open>The startup of \<^verbatim>\<open>main\<close>, run \<open>n\<close> times over.\<close>

fun startups :: "nat \<Rightarrow> db \<Rightarrow> py_exception + db" where
  "startups 0 d = Inr d"
| "startups (Suc n) d =
     (case add_default_cartridge_types d of Inl ex \<Rightarrow> Inl ex | Inr d' \<Rightarrow> startups n d')"

definition get_cartridge_types :: "db \<Rightarrow> cartridge_type list" where
  "get_cartridge_types d = cartridge_types d"

definition add_cartridge_type ::
  "db \<Rightarrow> string \<Rightarrow> f64 \<Rightarrow> f64 \<Rightarrow> string \<Rightarrow> f64 \<Rightarrow> f64 \<Rightarrow> py_exception + db" where
  "add_cartridge_type d name full_gas_mass empty_mass color butane propane =
     insert_cartridge_type d name full_gas_mass empty_mass color butane propane"



section \<open>The ledger\<close>

text \<open>\<open>date_str\<close> is the clock reading \<^verbatim>\<open>datetime.now().strftime(...)\<close> of the call.\<close>

definition add_transaction ::
  "db \<Rightarrow> string \<Rightarrow> int \<Rightarrow> string \<Rightarrow> f64 \<Rightarrow> f64 \<Rightarrow> f64 \<Rightarrow> f64 \<Rightarrow> f64 \<Rightarrow> string
     \<Rightarrow> py_exception + db" where
  "add_transaction d date_str cartridge_type_id color measured_weight gas_mass missing_gas
       butane_to_add propane_to_add client_name =
     (case execute_insert insert_transaction_sql 9
             [SText date_str, SInt cartridge_type_id, SText color, SReal measured_weight,
              SReal gas_mass, SReal missing_gas, SReal butane_to_add, SReal propane_to_add,
              SText client_name] d of
        Inl ex \<Rightarrow> Inl ex
      | Inr _ \<Rightarrow>
          Inr (d\<lparr>transactions := transactions d @
                   [\<lparr>t_id = transactions_id_seq d + 1, t_date = date_str,
                     t_cartridge_type_id = cartridge_type_id, t_color = color,
                     t_measured_weight = measured_weight, t_gas_mass = gas_mass,
                     t_missing_gas = missing_gas, t_butane_to_add = butane_to_add,
                     t_propane_to_add = propane_to_add, t_client_name = Some client_name\<rparr>],
                 transactions_id_seq := transactions_id_seq d + 1\<rparr>))"





definition delete_transaction :: "db \<Rightarrow> int \<Rightarrow> py_exception + db" where
  "delete_transaction d transaction_id =
     (case mogrify delete_transaction_sql [SInt transaction_id] of
        Inl ex \<Rightarrow> Inl ex
      | Inr _ \<Rightarrow> Inr (d\<lparr>transactions := filter (\<lambda>t. t_id t \<noteq> transaction_id) (transactions d)\<rparr>))"


section \<open>The forms of \<^verbatim>\<open>main\<close>\<close>

text \<open>
  What a form handler leaves on the page: \<^verbatim>\<open>st.success\<close>, \<^verbatim>\<open>st.error\<close> with one of the
  two validation messages, or an exception that nothing catches.
\<close>

datatype validation_error = WeightBelowEmptyMass | MissingTypeName

datatype outcome = StSuccess | StError validation_error | Raised py_exception

record fill_result =
  gas_mass :: f64
  missing_gas :: f64
  butane_to_add :: f64
  propane_to_add :: f64

text \<open>
  The computation behind the button \<^verbatim>\<open>Calculer et Enregistrer\<close> (lines 192 to 205 of
  \<^verbatim>\<open>app.py\<close>), up to the point where the results are shown.
\<close>

definition compute_fill :: "cartridge_type \<Rightarrow> f64 \<Rightarrow> validation_error + fill_result" where
  "compute_fill selected_type measured_weight =
     (let empty_mass = ct_empty_mass selected_type;
          full_gas_mass = ct_full_gas_mass selected_type;
          gas = fsub measured_weight empty_mass
      in if flt gas (Fin 0) then Inl WeightBelowEmptyMass
         else
           (let missing0 = fsub full_gas_mass gas;
                missing = (if fgt missing0 (Fin 0) then missing0 else Fin 0);
                butane_percentage = ct_butane selected_type;
                propane_percentage = ct_propane selected_type
            in Inr \<lparr>gas_mass = gas, missing_gas = missing,
                     butane_to_add = fmul missing butane_percentage,
                     propane_to_add = fmul missing propane_percentage\<rparr>))"

text \<open>The button itself: compute, then record with \<^verbatim>\<open>add_transaction\<close>.\<close>

definition calculer_et_enregistrer ::
  "db \<Rightarrow> string \<Rightarrow> cartridge_type \<Rightarrow> string \<Rightarrow> f64 \<Rightarrow> outcome \<times> db" where
  "calculer_et_enregistrer d now selected_type client_name measured_weight =
     (case compute_fill selected_type measured_weight of
        Inl err \<Rightarrow> (StError err, d)
      | Inr r \<Rightarrow>
          (case add_transaction d now (ct_id selected_type) (ct_color selected_type)
                  measured_weight (gas_mass r) (missing_gas r) (butane_to_add r)
                  (propane_to_add r) client_name of
             Inl ex \<Rightarrow> (Raised ex, d)
           | Inr d' \<Rightarrow> (StSuccess, d')))"

text \<open>The form \<^verbatim>\<open>ajout_type\<close>, submitted.\<close>

definition ajout_type ::
  "db \<Rightarrow> string \<Rightarrow> f64 \<Rightarrow> f64 \<Rightarrow> string \<Rightarrow> f64 \<Rightarrow> f64 \<Rightarrow> outcome \<times> db" where
  "ajout_type d new_name new_full_gas_mass new_empty_mass new_color new_butane new_propane =
     (if new_name \<noteq> []
      then (case add_cartridge_type d new_name new_full_gas_mass new_empty_mass new_color
                   new_butane new_propane of
              Inl ex \<Rightarrow> (Raised ex, d)
            | Inr d' \<Rightarrow> (StSuccess, d'))
      else (StError MissingTypeName, d))"

section \<open>Observations used by the properties\<close>

definition type_fields :: "cartridge_type \<Rightarrow> string \<times> f64 \<times> f64 \<times> string \<times> f64 \<times> f64" where
  "type_fields ct =
     (ct_name ct, ct_full_gas_mass ct, ct_empty_mass ct, ct_color ct, ct_butane ct, ct_propane ct)"

text \<open>The rows that one call of \<^verbatim>\<open>add_default_cartridge_types\<close> adds to the catalog.\<close>

definition seeded_rows ::
  "db \<Rightarrow> py_exception + (string \<times> f64 \<times> f64 \<times> string \<times> f64 \<times> f64) list" where
  "seeded_rows d =
     (case add_default_cartridge_types d of
        Inl ex \<Rightarrow> Inl ex
      | Inr d' \<Rightarrow> Inr (map type_fields (drop (length (cartridge_types d)) (cartridge_types d'))))"

text \<open>The seed table as the specification prints it, with its colour labels.\<close>

definition spec_seed_table :: "(string \<times> f64 \<times> f64 \<times> string \<times> f64 \<times> f64) list" where
  "spec_seed_table =
     [(''Type A'', float_lit 400, float_lit 200, ''Blue'', float_lit (70 / 100), float_lit (30 / 100)),
      (''Type B'', float_lit 500, float_lit 250, ''Red'', float_lit (60 / 100), float_lit (40 / 100)),
      (''Type C'', float_lit 450, float_lit 220, ''Blue'', float_lit (70 / 100), float_lit (30 / 100)),
      (''Type D'', float_lit 600, float_lit 300, ''Red'', float_lit (60 / 100), float_lit (40 / 100)),
      (''Type E'', float_lit 550, float_lit 280, ''Blue'', float_lit (70 / 100), float_lit (30 / 100))]"

text \<open>
  Python's \<^verbatim>\<open>max(a, b)\<close>, in which the specification writes the clamp: the second
  argument if it is greater than the first, else the first.
\<close>

definition py_max :: "f64 \<Rightarrow> f64 \<Rightarrow> f64" where
  "py_max a b = (if fgt b a then b else a)"

text \<open>
  The identity of the specification between the two amounts to add and the missing gas,
  computed as the program computes, in floats.
\<close>

definition sum_identity :: "cartridge_type \<Rightarrow> fill_result \<Rightarrow> bool" where
  "sum_identity ty r =
     feq (fadd (butane_to_add r) (propane_to_add r))
         (fmul (missing_gas r) (fadd (ct_butane ty) (ct_propane ty)))"

text \<open>Sample rows: the first default type as stored, and transactions that refer to a type.\<close>

definition type_a :: cartridge_type where
  "type_a = \<lparr>ct_id = 1, ct_name = ''Type A'', ct_full_gas_mass = float_lit 400,
             ct_empty_mass = float_lit 200, ct_color = ''Bleu'',
             ct_butane = float_lit (70 / 100), ct_propane = float_lit (30 / 100)\<rparr>"

definition sample_transaction :: "int \<Rightarrow> int \<Rightarrow> transaction" where
  "sample_transaction i type_id =
     \<lparr>t_id = i, t_date = ''2025-01-01 10:00:00'', t_cartridge_type_id = type_id,
      t_color = ''Bleu'', t_measured_weight = Fin 250, t_gas_mass = Fin 50,
      t_missing_gas = Fin 350, t_butane_to_add = Fin 245, t_propane_to_add = Fin 105,
      t_client_name = Some []\<rparr>"

definition sample_db :: db where
  "sample_db = \<lparr>cartridge_types = [type_a], cartridge_types_id_seq = 1,
                transactions = [sample_transaction 1 1, sample_transaction 2 1],
                transactions_id_seq = 2\<rparr>"

section \<open>Statements accepted and refused\<close>

lemma count_insert_cartridge_type: "count_placeholders insert_cartridge_type_sql = 6"
  by (simp add: insert_cartridge_type_sql_def)

lemma count_insert_transaction: "count_placeholders insert_transaction_sql = 6"
  by (simp add: insert_transaction_sql_def)




lemma count_delete_transaction: "count_placeholders delete_transaction_sql = 1"
  by (simp add: delete_transaction_sql_def)

lemma mogrify_insert_cartridge_type:
  "mogrify insert_cartridge_type_sql [a1, a2, a3, a4, a5, a6] = Inr ()"
  by (simp add: mogrify_def count_insert_cartridge_type)

lemma mogrify_insert_transaction:
  "mogrify insert_transaction_sql [a1, a2, a3, a4, a5, a6, a7, a8, a9] = Inl TypeError"
  by (simp add: mogrify_def count_insert_transaction)




lemma mogrify_delete_transaction: "mogrify delete_transaction_sql [a1] = Inr ()"
  by (simp add: mogrify_def count_delete_transaction)

lemma insert_cartridge_type_Inr:
  "insert_cartridge_type d n f e c b p =
     Inr (d\<lparr>cartridge_types := cartridge_types d @
              [\<lparr>ct_id = cartridge_types_id_seq d + 1, ct_name = n, ct_full_gas_mass = f,
                ct_empty_mass = e, ct_color = c, ct_butane = b, ct_propane = p\<rparr>],
            cartridge_types_id_seq := cartridge_types_id_seq d + 1\<rparr>)"
  by (simp add: insert_cartridge_type_def execute_insert_def mogrify_insert_cartridge_type
      count_insert_cartridge_type)

lemma add_transaction_raises:
  "add_transaction d date_str i c mw gm mg b p cn = Inl TypeError"
  by (simp add: add_transaction_def execute_insert_def mogrify_insert_transaction)

section \<open>Adding a cartridge type\<close>

text \<open>
  C4. The form that adds a cartridge type, submitted with an empty name, shows the
  validation error and leaves the store as it was: no cartridge-type row is inserted.
  The check is the form's (\<^verbatim>\<open>if new_name:\<close> in \<^verbatim>\<open>main\<close>); \<^verbatim>\<open>add_cartridge_type\<close>
  itself is never reached.
\<close>

theorem ajout_type_empty_name:
  "ajout_type d [] full_gas_mass empty_mass color butane propane = (StError MissingTypeName, d)"
  by (simp add: ajout_type_def)

section \<open>Seeding the catalog\<close>

lemma seed_empty_catalog:
  assumes "cartridge_types d = []"
  shows "add_default_cartridge_types d =
     Inr (d\<lparr>cartridge_types :=
        [\<lparr>ct_id = cartridge_types_id_seq d + 1, ct_name = ''Type A'', ct_full_gas_mass = float_lit 400,
          ct_empty_mass = float_lit 200, ct_color = ''Bleu'', ct_butane = float_lit (70 / 100),
          ct_propane = float_lit (30 / 100)\<rparr>,
         \<lparr>ct_id = cartridge_types_id_seq d + 2, ct_name = ''Type B'', ct_full_gas_mass = float_lit 500,
          ct_empty_mass = float_lit 250, ct_color = ''Rouge'', ct_butane = float_lit (60 / 100),
          ct_propane = float_lit (40 / 100)\<rparr>,
         \<lparr>ct_id = cartridge_types_id_seq d + 3, ct_name = ''Type C'', ct_full_gas_mass = float_lit 450,
          ct_empty_mass = float_lit 220, ct_color = ''Bleu'', ct_butane = float_lit (70 / 100),
          ct_propane = float_lit (30 / 100)\<rparr>,
         \<lparr>ct_id = cartridge_types_id_seq d + 4, ct_name = ''Type D'', ct_full_gas_mass = float_lit 600,
          ct_empty_mass = float_lit 300, ct_color = ''Rouge'', ct_butane = float_lit (60 / 100),
          ct_propane = float_lit (40 / 100)\<rparr>,
         \<lparr>ct_id = cartridge_types_id_seq d + 5, ct_name = ''Type E'', ct_full_gas_mass = float_lit 550,
          ct_empty_mass = float_lit 280, ct_color = ''Bleu'', ct_butane = float_lit (70 / 100),
          ct_propane = float_lit (30 / 100)\<rparr>],
        cartridge_types_id_seq := cartridge_types_id_seq d + 5\<rparr>)"
  using assms
  by (simp add: add_default_cartridge_types_def default_types_def insert_cartridge_type_Inr)

lemma seed_nonempty_catalog:
  "cartridge_types d \<noteq> [] \<Longrightarrow> add_default_cartridge_types d = Inr d"
  by (simp add: add_default_cartridge_types_def)

lemma startups_nonempty: "cartridge_types d \<noteq> [] \<Longrightarrow> startups n d = Inr d"
  by (induction n) (simp_all add: seed_nonempty_catalog)

text \<open>
  C5. Seeding is idempotent. Started from an empty catalog, any positive number of
  startups leaves exactly five cartridge types; on a catalog that is not empty the call
  succeeds and changes nothing.
\<close>

theorem seed_idempotent:
  "(cartridge_types d = [] \<longrightarrow>
      (\<forall>n>0. \<exists>d'. startups n d = Inr d' \<and> length (cartridge_types d') = 5))
   \<and> (cartridge_types d \<noteq> [] \<longrightarrow> add_default_cartridge_types d = Inr d)"
proof (intro conjI impI allI)
  fix n :: nat
  assume empty: "cartridge_types d = []" and pos: "0 < n"
  from pos obtain k where n: "n = Suc k" by (cases n) auto
  obtain d1 where d1: "add_default_cartridge_types d = Inr d1"
    and len: "length (cartridge_types d1) = 5"
    using seed_empty_catalog [OF empty] by simp
  from len have "cartridge_types d1 \<noteq> []" by auto
  then have "startups k d1 = Inr d1" by (rule startups_nonempty)
  with d1 len n show "\<exists>d'. startups n d = Inr d' \<and> length (cartridge_types d') = 5"
    by simp
next
  assume "cartridge_types d \<noteq> []"
  then show "add_default_cartridge_types d = Inr d" by (rule seed_nonempty_catalog)
qed

theorem seed_idempotent_witness:
  "cartridge_types empty_db = [] \<and> (0::nat) < 2
   \<and> (\<exists>d'. startups 2 empty_db = Inr d' \<and> length (cartridge_types d') = 5)
   \<and> cartridge_types sample_db \<noteq> [] \<and> add_default_cartridge_types sample_db = Inr sample_db"
proof -
  have e: "cartridge_types empty_db = []" by (simp add: empty_db_def)
  have s: "cartridge_types sample_db \<noteq> []" by (simp add: sample_db_def)
  from seed_idempotent [of empty_db] e
  have "\<exists>d'. startups 2 empty_db = Inr d' \<and> length (cartridge_types d') = 5"
    by (simp del: startups.simps)
  moreover from seed_idempotent [of sample_db] s
  have "add_default_cartridge_types sample_db = Inr sample_db" by simp
  ultimately show ?thesis using e s by simp
qed

text \<open>
  The rows seeded into an empty catalog are not the table of the specification: the
  colour labels of the code are \<^verbatim>\<open>Bleu\<close> and \<^verbatim>\<open>Rouge\<close>.
\<close>

theorem seed_table_counterexample: "seeded_rows empty_db \<noteq> Inr spec_seed_table"
  by (simp add: seeded_rows_def seed_empty_catalog empty_db_def spec_seed_table_def type_fields_def)

text \<open>
  C6, as amended. On an empty catalog the call inserts exactly five rows, with the names,
  masses and ratios of the seed table and the colour labels \<^verbatim>\<open>Bleu\<close> (70/30) and
  \<^verbatim>\<open>Rouge\<close> (60/40).
\<close>

theorem seed_table:
  "cartridge_types d = [] \<Longrightarrow>
   seeded_rows d = Inr
     [(''Type A'', float_lit 400, float_lit 200, ''Bleu'', float_lit (70 / 100), float_lit (30 / 100)),
      (''Type B'', float_lit 500, float_lit 250, ''Rouge'', float_lit (60 / 100), float_lit (40 / 100)),
      (''Type C'', float_lit 450, float_lit 220, ''Bleu'', float_lit (70 / 100), float_lit (30 / 100)),
      (''Type D'', float_lit 600, float_lit 300, ''Rouge'', float_lit (60 / 100), float_lit (40 / 100)),
      (''Type E'', float_lit 550, float_lit 280, ''Bleu'', float_lit (70 / 100), float_lit (30 / 100))]"
  by (simp add: seeded_rows_def seed_empty_catalog type_fields_def)

theorem seed_table_witness:
  "cartridge_types empty_db = [] \<and>
   seeded_rows empty_db = Inr
     [(''Type A'', float_lit 400, float_lit 200, ''Bleu'', float_lit (70 / 100), float_lit (30 / 100)),
      (''Type B'', float_lit 500, float_lit 250, ''Rouge'', float_lit (60 / 100), float_lit (40 / 100)),
      (''Type C'', float_lit 450, float_lit 220, ''Bleu'', float_lit (70 / 100), float_lit (30 / 100)),
      (''Type D'', float_lit 600, float_lit 300, ''Rouge'', float_lit (60 / 100), float_lit (40 / 100)),
      (''Type E'', float_lit 550, float_lit 280, ''Bleu'', float_lit (70 / 100), float_lit (30 / 100))]"
proof -
  have e: "cartridge_types empty_db = []" by (simp add: empty_db_def)
  from seed_table [OF e] e show ?thesis by simp
qed

section \<open>Updates\<close>







section \<open>Listing the transactions\<close>





section \<open>Rounding to binary64\<close>

lemma bitlen_bounds: "0 < n \<Longrightarrow> 2 ^ (bitlen n - 1) \<le> n \<and> n < 2 ^ bitlen n"
proof (induction n rule: bitlen.induct)
  case (1 n)
  show ?case
  proof (cases "n div 2 = 0")
    case True
    with "1.prems" have "n = 1" by presburger
    then show ?thesis by (simp add: bitlen.simps)
  next
    case False
    then have pos: "0 < n div 2" by simp
    from "1.prems" have n0: "n \<noteq> 0" by simp
    from "1.IH" [OF n0 pos]
    have lo: "2 ^ (bitlen (n div 2) - 1) \<le> n div 2" and hi: "n div 2 < 2 ^ bitlen (n div 2)"
      by simp_all
    have b: "bitlen n = Suc (bitlen (n div 2))" using n0 by (subst bitlen.simps) simp
    have "(2::nat) * 2 ^ (bitlen (n div 2) - 1) \<le> 2 * (n div 2)" using lo by simp
    also have "\<dots> \<le> n" by simp
    finally have l: "(2::nat) * 2 ^ (bitlen (n div 2) - 1) \<le> n" .
    have bl: "0 < bitlen (n div 2)" using pos by (subst bitlen.simps) simp
    then have "(2::nat) ^ (bitlen n - 1) = 2 * 2 ^ (bitlen (n div 2) - 1)"
      using b by (cases "bitlen (n div 2)") simp_all
    with l have l': "2 ^ (bitlen n - 1) \<le> n" by simp
    from hi have "n div 2 + 1 \<le> 2 ^ bitlen (n div 2)" by simp
    then have "2 * (n div 2 + 1) \<le> 2 * 2 ^ bitlen (n div 2)" by simp
    moreover have "n < 2 * (n div 2 + 1)" by presburger
    ultimately have "n < 2 ^ bitlen n" using b by simp
    with l' show ?thesis by simp
  qed
qed

lemma pow2_power_int: "pow2 e = power_int 2 e"
  by (simp add: pow2_def power_int_def power_inverse [symmetric] inverse_eq_divide power_one_over)

lemma pow2_pos: "0 < pow2 e"
  by (simp add: pow2_power_int)

lemma pow2_add: "pow2 (a + b) = pow2 a * pow2 b"
  by (simp add: pow2_power_int power_int_add)

lemma pow2_nat: "0 \<le> e \<Longrightarrow> pow2 e = of_int (2 ^ nat e)"
  by (simp add: pow2_def)

lemma ilog2_lower:
  assumes "0 < a"
  shows "pow2 (ilog2 a) \<le> a"
proof (cases "1 \<le> a")
  case True
  define n where "n = nat \<lfloor>a\<rfloor>"
  from True have fl: "1 \<le> \<lfloor>a\<rfloor>" by simp
  then have npos: "0 < n" by (simp add: n_def)
  from bitlen_bounds [OF npos] have lo: "2 ^ (bitlen n - 1) \<le> n" by simp
  have bl: "0 < bitlen n" using npos by (subst bitlen.simps) simp
  have "ilog2 a = int (bitlen n) - 1" using True by (simp add: ilog2_def n_def)
  also have "\<dots> = int (bitlen n - 1)" using bl by simp
  finally have "pow2 (ilog2 a) = 2 ^ (bitlen n - 1)" by (simp add: pow2_def)
  also have "\<dots> = of_nat (2 ^ (bitlen n - 1))" by simp
  also have "\<dots> \<le> of_nat n" using lo by (simp only: of_nat_le_iff)
  also have "\<dots> = of_int \<lfloor>a\<rfloor>" using fl by (simp add: n_def)
  also have "\<dots> \<le> a" by simp
  finally show ?thesis .
next
  case False
  define c where "c = - \<lfloor>- (1 / a)\<rfloor>"
  define k where "k = bitlen (nat (c - 1))"
  have c_ceil: "c = \<lceil>1 / a\<rceil>" by (simp add: c_def ceiling_def)
  from False assms have "1 < 1 / a" by (simp add: field_simps)
  then have "1 < c" unfolding c_ceil by (simp add: less_ceiling_iff)
  then have pos: "0 < nat (c - 1)" by simp
  from bitlen_bounds [OF pos] have "nat (c - 1) < 2 ^ k" by (simp add: k_def)
  then have "c - 1 < 2 ^ k" using \<open>1 < c\<close> by (simp add: nat_less_iff)
  then have "c \<le> 2 ^ k" by simp
  then have "(of_int c :: rat) \<le> of_int (2 ^ k)" by (simp only: of_int_le_iff)
  then have "(of_int c :: rat) \<le> 2 ^ k" by simp
  moreover have "1 / a \<le> of_int c" unfolding c_ceil by simp
  ultimately have "1 / a \<le> 2 ^ k" by linarith
  then have "1 / 2 ^ k \<le> a" using assms by (simp add: field_simps)
  moreover have "ilog2 a = - int k" using False by (simp add: ilog2_def k_def c_def)
  ultimately show ?thesis by (cases "k = 0") (simp_all add: pow2_def)
qed

lemma ilog2_upper:
  assumes "0 < a"
  shows "a < pow2 (ilog2 a + 1)"
proof (cases "1 \<le> a")
  case True
  define n where "n = nat \<lfloor>a\<rfloor>"
  from True have fl: "1 \<le> \<lfloor>a\<rfloor>" by simp
  then have npos: "0 < n" by (simp add: n_def)
  from bitlen_bounds [OF npos] have hi: "n < 2 ^ bitlen n" by simp
  have "ilog2 a + 1 = int (bitlen n)" using True by (simp add: ilog2_def n_def)
  then have p: "pow2 (ilog2 a + 1) = 2 ^ bitlen n" by (simp add: pow2_def)
  from hi have "Suc n \<le> 2 ^ bitlen n" by simp
  then have "int (Suc n) \<le> int (2 ^ bitlen n)" by (simp only: of_nat_le_iff)
  then have "int n + 1 \<le> 2 ^ bitlen n" by simp
  then have "\<lfloor>a\<rfloor> + 1 \<le> 2 ^ bitlen n" using fl by (simp add: n_def)
  then have "(of_int (\<lfloor>a\<rfloor> + 1) :: rat) \<le> of_int (2 ^ bitlen n)" by (simp only: of_int_le_iff)
  then have "(of_int \<lfloor>a\<rfloor> + 1 :: rat) \<le> 2 ^ bitlen n" by simp
  moreover have "a < of_int \<lfloor>a\<rfloor> + 1" by linarith
  ultimately show ?thesis using p by linarith
next
  case False
  define c where "c = - \<lfloor>- (1 / a)\<rfloor>"
  define k where "k = bitlen (nat (c - 1))"
  have c_ceil: "c = \<lceil>1 / a\<rceil>" by (simp add: c_def ceiling_def)
  from False assms have "1 < 1 / a" by (simp add: field_simps)
  then have "1 < c" unfolding c_ceil by (simp add: less_ceiling_iff)
  then have pos: "0 < nat (c - 1)" by simp
  have kpos: "0 < k" unfolding k_def using pos by (subst bitlen.simps) simp
  from bitlen_bounds [OF pos] have "2 ^ (k - 1) \<le> nat (c - 1)" by (simp add: k_def)
  then have "int (2 ^ (k - 1)) \<le> int (nat (c - 1))" by (simp only: of_nat_le_iff)
  then have "2 ^ (k - 1) \<le> c - 1" using \<open>1 < c\<close> by simp
  then have "(of_int (2 ^ (k - 1)) :: rat) \<le> of_int (c - 1)" by (simp only: of_int_le_iff)
  then have "(2 ^ (k - 1) :: rat) \<le> of_int c - 1" by simp
  moreover have "of_int c - 1 < 1 / a" unfolding c_ceil by linarith
  ultimately have "2 ^ (k - 1) < 1 / a" by linarith
  then have lt: "a < 1 / 2 ^ (k - 1)" using assms by (simp add: field_simps)
  have "ilog2 a + 1 = - int (k - 1)" using False kpos by (simp add: ilog2_def k_def c_def)
  then have "pow2 (ilog2 a + 1) = 1 / 2 ^ (k - 1)"
    by (cases "k - 1 = 0") (simp_all add: pow2_def)
  with lt show ?thesis by simp
qed

lemma round_half_even_cases:
  "round_half_even s = \<lfloor>s\<rfloor> \<or> round_half_even s = \<lfloor>s\<rfloor> + 1"
  by (simp add: round_half_even_def Let_def)

lemma round_half_even_ge:
  assumes "of_int k \<le> s"
  shows "k \<le> round_half_even s"
proof -
  from assms have "k \<le> \<lfloor>s\<rfloor>" by (simp add: le_floor_iff)
  with round_half_even_cases [of s] show ?thesis by linarith
qed

lemma round64_unfold:
  "q \<noteq> 0 \<Longrightarrow> round64 q =
     (if 2 ^ 1024 \<le> of_int (round_half_even (\<bar>q\<bar> / pow2 (max (ilog2 \<bar>q\<bar> - 52) (- 1074))))
                       * pow2 (max (ilog2 \<bar>q\<bar> - 52) (- 1074))
      then (if 0 < q then PInf else NInf)
      else Fin (if 0 < q
                then of_int (round_half_even (\<bar>q\<bar> / pow2 (max (ilog2 \<bar>q\<bar> - 52) (- 1074))))
                       * pow2 (max (ilog2 \<bar>q\<bar> - 52) (- 1074))
                else - (of_int (round_half_even (\<bar>q\<bar> / pow2 (max (ilog2 \<bar>q\<bar> - 52) (- 1074))))
                       * pow2 (max (ilog2 \<bar>q\<bar> - 52) (- 1074)))))"
  by (simp only: round64_def Let_def if_False)

lemma round64_nonneg: "0 \<le> q \<Longrightarrow> \<not> flt (round64 q) (Fin 0)"
proof (cases "q = 0")
  case True
  then show ?thesis by (simp add: round64_def)
next
  case False
  assume "0 \<le> q"
  with False have q: "0 < q" by simp
  let ?e = "max (ilog2 \<bar>q\<bar> - 52) (- 1074)"
  let ?m = "round_half_even (\<bar>q\<bar> / pow2 ?e)"
  have "of_int 0 \<le> \<bar>q\<bar> / pow2 ?e" using pow2_pos [of ?e] by simp
  then have "0 \<le> ?m" by (rule round_half_even_ge)
  then have "0 \<le> of_int ?m * pow2 ?e" using pow2_pos [of ?e] by simp
  then show ?thesis using q by (simp only: round64_unfold [OF False] flt.simps split: if_splits) simp
qed

lemma round64_negative:
  assumes "q \<le> - pow2 (- 1074)"
  shows "flt (round64 q) (Fin 0)"
proof -
  from assms pow2_pos [of "- 1074"] have q: "q < 0" by linarith
  then have q0: "q \<noteq> 0" by simp
  let ?a = "\<bar>q\<bar>"
  let ?e = "max (ilog2 ?a - 52) (- 1074)"
  let ?m = "round_half_even (?a / pow2 ?e)"
  have a: "pow2 (- 1074) \<le> ?a" "0 < ?a" using assms q by simp_all
  have "pow2 ?e \<le> ?a"
  proof (cases "ilog2 ?a - 52 \<le> - 1074")
    case True
    then have "?e = - 1074" by simp
    with a show ?thesis by simp
  next
    case False
    then have "?e = ilog2 ?a + (- 52)" by simp
    then have "pow2 ?e = pow2 (ilog2 ?a) * pow2 (- 52)" by (simp only: pow2_add)
    also have "\<dots> \<le> pow2 (ilog2 ?a) * 1"
      using pow2_pos [of "ilog2 ?a"] by (intro mult_left_mono) (simp_all add: pow2_def)
    also have "\<dots> \<le> ?a" using ilog2_lower [OF a(2)] by simp
    finally show ?thesis .
  qed
  then have "of_int 1 \<le> ?a / pow2 ?e" using pow2_pos [of ?e] by (simp add: field_simps)
  then have "1 \<le> ?m" by (rule round_half_even_ge)
  then have "0 < of_int ?m * pow2 ?e" using pow2_pos [of ?e] by simp
  then show ?thesis using q by (simp only: round64_unfold [OF q0] flt.simps split: if_splits) simp
qed

lemma is_f64_grid:
  assumes "round64 q = Fin q"
  shows "\<exists>k::int. q = of_int k * pow2 (- 1074)"
proof (cases "q = 0")
  case True
  then show ?thesis by (intro exI [of _ 0]) simp
next
  case False
  let ?e = "max (ilog2 \<bar>q\<bar> - 52) (- 1074)"
  let ?m = "round_half_even (\<bar>q\<bar> / pow2 ?e)"
  from assms have "q = of_int ?m * pow2 ?e \<or> q = - (of_int ?m * pow2 ?e)"
    by (simp only: round64_unfold [OF False] split: if_splits) auto
  then obtain j :: int where j: "q = of_int j * pow2 ?e"
  proof
    assume "q = of_int ?m * pow2 ?e"
    then show ?thesis by (rule that)
  next
    assume "q = - (of_int ?m * pow2 ?e)"
    then have "q = of_int (- ?m) * pow2 ?e" by simp
    then show ?thesis by (rule that)
  qed
  have nn: "0 \<le> ?e + 1074" by simp
  have "pow2 ?e = pow2 ((?e + 1074) + (- 1074))" by simp
  also have "\<dots> = pow2 (?e + 1074) * pow2 (- 1074)" by (simp only: pow2_add)
  also have "pow2 (?e + 1074) = of_int (2 ^ nat (?e + 1074))"
    using nn by (rule pow2_nat)
  finally have "pow2 ?e = of_int (2 ^ nat (?e + 1074)) * pow2 (- 1074)" .
  then have "q = of_int j * (of_int (2 ^ nat (?e + 1074)) * pow2 (- 1074))"
    using j by simp
  then have "q = of_int (j * 2 ^ nat (?e + 1074)) * pow2 (- 1074)"
    by (simp only: of_int_mult mult.assoc)
  then show ?thesis by blast
qed

lemma fsub_negative:
  assumes "is_f64 x" and "is_f64 y" and "flt x y"
  shows "flt (fsub x y) (Fin 0)"
proof (cases x)
  case (Fin a)
  note xa = this
  show ?thesis
  proof (cases y)
    case (Fin b)
    from assms xa Fin obtain ka kb :: int
      where ka: "a = of_int ka * pow2 (- 1074)" and kb: "b = of_int kb * pow2 (- 1074)"
      using is_f64_grid [of a] is_f64_grid [of b] by (auto simp: is_f64_def)
    from assms(3) xa Fin have "a < b" by simp
    then have "of_int ka * pow2 (- 1074) < of_int kb * pow2 (- 1074)"
      using ka kb by simp
    then have "(of_int ka :: rat) < of_int kb" using pow2_pos [of "- 1074"] by simp
    then have "ka - kb \<le> - 1" by simp
    then have "(of_int (ka - kb) :: rat) \<le> of_int (- 1)" by (simp only: of_int_le_iff)
    then have "of_int (ka - kb) * pow2 (- 1074) \<le> of_int (- 1) * pow2 (- 1074)"
      using pow2_pos [of "- 1074"] by (intro mult_right_mono) simp_all
    then have "a - b \<le> - pow2 (- 1074)" using ka kb by (simp add: algebra_simps)
    then show ?thesis using xa Fin by (simp add: round64_negative)
  qed (use assms xa in simp_all)
qed (use assms in \<open>cases y; simp\<close>)+

lemma fsub_not_negative:
  assumes "fge x y"
  shows "\<not> flt (fsub x y) (Fin 0)"
proof (cases x)
  case (Fin a)
  then show ?thesis using assms
    by (cases y) (auto simp: fge_def round64_nonneg)
qed (use assms in \<open>cases y; simp add: fge_def\<close>)+

section \<open>Evaluation of float arithmetic\<close>

lemma bitlen_0: "bitlen 0 = 0"
  by (simp add: bitlen.simps)

lemma bitlen_1: "bitlen (Suc 0) = Suc 0"
  by (simp add: bitlen.simps)

lemma bitlen_numeral: "bitlen (numeral k) = Suc (bitlen (numeral k div 2))"
  by (subst bitlen.simps) simp

lemma floor_rat_numeral: "\<lfloor>numeral a / numeral b :: rat\<rfloor> = numeral a div numeral b"
  using floor_divide_of_int_eq [of "numeral a" "numeral b", where ?'a = rat] by simp

lemma floor_rat_neg_numeral: "\<lfloor>- (numeral a / numeral b) :: rat\<rfloor> = - numeral a div numeral b"
  using floor_divide_of_int_eq [of "- numeral a" "numeral b", where ?'a = rat] by simp

lemmas f64_eval = round64_def ilog2_def pow2_def round_half_even_def Let_def
  bitlen_0 bitlen_1 bitlen_numeral floor_rat_numeral floor_rat_neg_numeral

lemma compute_fill_250:
  "compute_fill type_a (Fin 250) =
     Inr \<lparr>gas_mass = Fin 50, missing_gas = Fin 350,
          butane_to_add = Fin (8620171161763839 / 35184372088832),
          propane_to_add = Fin 105\<rparr>"
  by (simp add: compute_fill_def type_a_def float_lit_def fgt_def f64_eval)

lemma compute_fill_201:
  "compute_fill type_a (Fin 201) =
     Inr \<lparr>gas_mass = Fin 1, missing_gas = Fin 399,
          butane_to_add = Fin (1228374390551347 / 4398046511104),
          propane_to_add = Fin (2105784669516595 / 17592186044416)\<rparr>"
  by (simp add: compute_fill_def type_a_def float_lit_def fgt_def f64_eval)

lemma sum_201:
  "fadd (Fin (1228374390551347 / 4398046511104)) (Fin (2105784669516595 / 17592186044416))
     = Fin (7019282231721983 / 17592186044416)"
  by (simp add: f64_eval)

lemma ratios_a: "fadd (ct_butane type_a) (ct_propane type_a) = Fin 1"
  by (simp add: type_a_def float_lit_def f64_eval)

lemma lit_245: "float_lit 245 = Fin 245"
  by (simp add: float_lit_def f64_eval)

section \<open>The error of one rounding\<close>

lemma round_half_even_error: "\<bar>of_int (round_half_even s) - s\<bar> \<le> 1 / 2"
proof -
  have lo: "of_int \<lfloor>s\<rfloor> \<le> s" and hi: "s < of_int \<lfloor>s\<rfloor> + 1" by linarith+
  show ?thesis
    using lo hi by (auto simp: round_half_even_def Let_def abs_le_iff not_less)
qed

lemma abs_sign_diff:
  fixes q r R :: rat
  assumes "q \<noteq> 0" and "r = (if 0 < q then R else - R)"
  shows "\<bar>r - q\<bar> = \<bar>R - \<bar>q\<bar>\<bar>"
  using assms by (cases "0 < q") (simp_all add: abs_if)

lemma round64_error:
  assumes "round64 q = Fin r"
  shows "\<bar>r - q\<bar> \<le> \<bar>q\<bar> / 2 ^ 53 + 1 / 2 ^ 1075"
proof (cases "q = 0")
  case True
  with assms show ?thesis by (simp add: round64_def)
next
  case False
  let ?a = "\<bar>q\<bar>"
  let ?e = "max (ilog2 ?a - 52) (- 1074)"
  let ?s = "?a / pow2 ?e"
  let ?m = "round_half_even ?s"
  have apos: "0 < ?a" using False by simp
  have pe: "0 < pow2 ?e" by (rule pow2_pos)
  from assms have r: "r = (if 0 < q then of_int ?m * pow2 ?e else - (of_int ?m * pow2 ?e))"
    by (simp only: round64_unfold [OF False] split: if_splits) auto
  have "\<bar>r - q\<bar> = \<bar>of_int ?m * pow2 ?e - ?a\<bar>"
    using False r by (rule abs_sign_diff)
  also have "of_int ?m * pow2 ?e - ?a = (of_int ?m - ?s) * pow2 ?e"
    using pe by (simp add: algebra_simps)
  also have "\<bar>\<dots>\<bar> = \<bar>of_int ?m - ?s\<bar> * pow2 ?e"
    using pe by (simp add: abs_mult)
  also have "\<dots> \<le> (1 / 2) * pow2 ?e"
    using round_half_even_error [of ?s] pe by (intro mult_right_mono) simp_all
  finally have err: "\<bar>r - q\<bar> \<le> pow2 ?e / 2" by simp
  have "pow2 ?e \<le> ?a / 2 ^ 52 + 1 / 2 ^ 1074"
  proof (cases "ilog2 ?a - 52 \<le> - 1074")
    case True
    then have "?e = - 1074" by simp
    then have "pow2 ?e = 1 / 2 ^ 1074" by (simp add: pow2_def)
    moreover have "0 \<le> ?a / 2 ^ 52" by simp
    ultimately show ?thesis by linarith
  next
    case False
    then have "?e = ilog2 ?a + (- 52)" by simp
    then have "pow2 ?e = pow2 (ilog2 ?a) * pow2 (- 52)" by (simp only: pow2_add)
    also have "pow2 (- 52) = 1 / 2 ^ 52" by (simp add: pow2_def)
    finally have "pow2 ?e = pow2 (ilog2 ?a) / 2 ^ 52" by simp
    also have "\<dots> \<le> ?a / 2 ^ 52"
      using ilog2_lower [OF apos] by (simp add: divide_right_mono)
    finally have "pow2 ?e \<le> ?a / 2 ^ 52" .
    moreover have "(0::rat) \<le> 1 / 2 ^ 1074" by simp
    ultimately show ?thesis by linarith
  qed
  then have "pow2 ?e / 2 \<le> (?a / 2 ^ 52 + 1 / 2 ^ 1074) / 2" by (simp add: divide_right_mono)
  also have "\<dots> = ?a / 2 ^ 53 + 1 / 2 ^ 1075" by (simp add: add_divide_distrib)
  finally show ?thesis using err by linarith
qed

section \<open>The fill computation\<close>

lemma compute_fill_Inr:
  assumes "\<not> flt (fsub measured_weight (ct_empty_mass ty)) (Fin 0)"
  shows "compute_fill ty measured_weight =
     Inr \<lparr>gas_mass = fsub measured_weight (ct_empty_mass ty),
          missing_gas = py_max (Fin 0)
             (fsub (ct_full_gas_mass ty) (fsub measured_weight (ct_empty_mass ty))),
          butane_to_add = fmul (py_max (Fin 0)
             (fsub (ct_full_gas_mass ty) (fsub measured_weight (ct_empty_mass ty)))) (ct_butane ty),
          propane_to_add = fmul (py_max (Fin 0)
             (fsub (ct_full_gas_mass ty) (fsub measured_weight (ct_empty_mass ty)))) (ct_propane ty)\<rparr>"
  using assms by (simp add: compute_fill_def Let_def py_max_def)

lemma compute_fill_Inl:
  assumes "flt (fsub measured_weight (ct_empty_mass ty)) (Fin 0)"
  shows "compute_fill ty measured_weight = Inl WeightBelowEmptyMass"
  using assms by (simp add: compute_fill_def Let_def)

lemma float_lit_250: "float_lit 250 = Fin 250"
  by (simp add: float_lit_def f64_eval)

lemma float_lit_201: "float_lit 201 = Fin 201"
  by (simp add: float_lit_def f64_eval)

lemma float_lit_150: "float_lit 150 = Fin 150"
  by (simp add: float_lit_def f64_eval)

lemma empty_mass_a: "ct_empty_mass type_a = Fin 200"
  by (simp add: type_a_def float_lit_def f64_eval)

text \<open>
  C1. The button does not record the fill. For the seeded Type A and a measured weight
  of 250 g, above the empty mass, \<^verbatim>\<open>add_transaction\<close> hands nine arguments to a
  statement with six placeholders: the call raises \<^verbatim>\<open>TypeError\<close>, no row is written and
  the store is as before.
\<close>

theorem calculer_et_enregistrer_raises:
  "calculer_et_enregistrer sample_db ''2025-03-01 12:00:00'' type_a ''Marie'' (float_lit 250)
     = (Raised TypeError, sample_db)"
  by (simp add: calculer_et_enregistrer_def float_lit_250 compute_fill_250 add_transaction_raises)

text \<open>
  The scenario of the specification, computed in floats: the butane to add for Type A at
  250 g is not 245.0.
\<close>

theorem compute_fill_scenario_counterexample:
  "compute_fill type_a (float_lit 250) \<noteq>
     Inr \<lparr>gas_mass = float_lit 50, missing_gas = float_lit 350,
          butane_to_add = float_lit 245, propane_to_add = float_lit 105\<rparr>"
  by (simp add: float_lit_250 compute_fill_250 lit_245)

text \<open>
  C2, as amended. For every cartridge type and every measured weight that is at least
  the empty mass, the computation succeeds with the gas mass the float difference of
  measured weight and empty mass, and the missing gas the maximum of 0 and the float
  difference of full gas mass and gas mass. For Type A (400, 200, 0.70, 0.30) and 250 g
  it gives gas mass 50, missing gas 350, propane to add 105.0 and butane to add
  244.99999999999997, the float below 245, which is what \<^verbatim>\<open>350.0 * 0.7\<close> rounds to.
\<close>

theorem compute_fill_valid:
  "(fge measured_weight (ct_empty_mass ty) \<longrightarrow>
      (\<exists>r. compute_fill ty measured_weight = Inr r
         \<and> gas_mass r = fsub measured_weight (ct_empty_mass ty)
         \<and> missing_gas r = py_max (Fin 0) (fsub (ct_full_gas_mass ty) (gas_mass r))))
   \<and> compute_fill type_a (float_lit 250) =
        Inr \<lparr>gas_mass = float_lit 50, missing_gas = float_lit 350,
             butane_to_add = Fin (245 - 1 / 2 ^ 45), propane_to_add = float_lit 105\<rparr>"
proof (intro conjI impI)
  assume "fge measured_weight (ct_empty_mass ty)"
  then have "\<not> flt (fsub measured_weight (ct_empty_mass ty)) (Fin 0)"
    by (rule fsub_not_negative)
  from compute_fill_Inr [OF this]
  show "\<exists>r. compute_fill ty measured_weight = Inr r
         \<and> gas_mass r = fsub measured_weight (ct_empty_mass ty)
         \<and> missing_gas r = py_max (Fin 0) (fsub (ct_full_gas_mass ty) (gas_mass r))"
    by simp
next
  have "float_lit 50 = Fin 50" "float_lit 350 = Fin 350" "float_lit 105 = Fin 105"
    by (simp_all add: float_lit_def f64_eval)
  then show "compute_fill type_a (float_lit 250) =
        Inr \<lparr>gas_mass = float_lit 50, missing_gas = float_lit 350,
             butane_to_add = Fin (245 - 1 / 2 ^ 45), propane_to_add = float_lit 105\<rparr>"
    by (simp add: float_lit_250 compute_fill_250)
qed

theorem compute_fill_valid_witness:
  "fge (float_lit 250) (ct_empty_mass type_a)
   \<and> (\<exists>r. compute_fill type_a (float_lit 250) = Inr r
         \<and> gas_mass r = Fin 50 \<and> missing_gas r = Fin 350)"
proof -
  have h: "fge (float_lit 250) (ct_empty_mass type_a)"
    by (simp add: float_lit_250 empty_mass_a fge_def)
  from compute_fill_valid [of "float_lit 250" type_a] h
  obtain r where "compute_fill type_a (float_lit 250) = Inr r"
    and "gas_mass r = fsub (float_lit 250) (ct_empty_mass type_a)"
    and "missing_gas r = py_max (Fin 0) (fsub (ct_full_gas_mass type_a) (gas_mass r))"
    by blast
  moreover have "fsub (float_lit 250) (ct_empty_mass type_a) = Fin 50"
    by (simp add: float_lit_250 empty_mass_a f64_eval)
  moreover have "py_max (Fin 0) (fsub (ct_full_gas_mass type_a) (Fin 50)) = Fin 350"
    by (simp add: type_a_def float_lit_def py_max_def fgt_def f64_eval)
  ultimately show ?thesis using h by auto
qed

text \<open>
  C3. For every cartridge type and every measured weight below the empty mass (both of
  them floats), the computation fails with the validation error, the button shows it,
  no transaction is created and the store is unchanged, so both tables keep their
  number of rows.
\<close>

theorem weight_below_empty_mass:
  assumes "is_f64 measured_weight" and "is_f64 (ct_empty_mass selected_type)"
    and "flt measured_weight (ct_empty_mass selected_type)"
  shows "compute_fill selected_type measured_weight = Inl WeightBelowEmptyMass
    \<and> calculer_et_enregistrer d now selected_type client_name measured_weight
        = (StError WeightBelowEmptyMass, d)
    \<and> length (transactions (snd (calculer_et_enregistrer d now selected_type client_name
          measured_weight))) = length (transactions d)
    \<and> length (cartridge_types (snd (calculer_et_enregistrer d now selected_type client_name
          measured_weight))) = length (cartridge_types d)"
proof -
  from assms have "flt (fsub measured_weight (ct_empty_mass selected_type)) (Fin 0)"
    by (rule fsub_negative)
  then have "compute_fill selected_type measured_weight = Inl WeightBelowEmptyMass"
    by (rule compute_fill_Inl)
  then show ?thesis by (simp add: calculer_et_enregistrer_def)
qed

theorem weight_below_empty_mass_witness:
  "is_f64 (float_lit 150) \<and> is_f64 (ct_empty_mass type_a)
   \<and> flt (float_lit 150) (ct_empty_mass type_a)
   \<and> calculer_et_enregistrer sample_db ''2025-03-01 12:00:00'' type_a ''Marie'' (float_lit 150)
       = (StError WeightBelowEmptyMass, sample_db)"
proof -
  have a: "is_f64 (float_lit 150)" by (simp add: float_lit_150 is_f64_def f64_eval)
  have b: "is_f64 (ct_empty_mass type_a)" by (simp add: empty_mass_a is_f64_def f64_eval)
  have c: "flt (float_lit 150) (ct_empty_mass type_a)" by (simp add: float_lit_150 empty_mass_a)
  from weight_below_empty_mass [OF a b c] a b c show ?thesis by simp
qed

text \<open>
  The sum identity fails in floats. For Type A at 201 g the missing gas is 399 and the
  ratios add up to 1.0, yet the two amounts add up to 398.99999999999994.
\<close>

theorem fill_sum_counterexample:
  "compute_fill type_a (float_lit 201) =
     Inr \<lparr>gas_mass = Fin 1, missing_gas = Fin 399,
          butane_to_add = Fin (1228374390551347 / 4398046511104),
          propane_to_add = Fin (2105784669516595 / 17592186044416)\<rparr>
   \<and> \<not> sum_identity type_a
         \<lparr>gas_mass = Fin 1, missing_gas = Fin 399,
          butane_to_add = Fin (1228374390551347 / 4398046511104),
          propane_to_add = Fin (2105784669516595 / 17592186044416)\<rparr>
   \<and> fadd (ct_butane type_a) (ct_propane type_a) = Fin 1
   \<and> fadd (Fin (1228374390551347 / 4398046511104)) (Fin (2105784669516595 / 17592186044416))
       \<noteq> Fin 399"
proof -
  have "round64 399 = Fin 399" by (simp add: f64_eval)
  moreover have "round64 (7019282231721983 / 17592186044416)
      = Fin (7019282231721983 / 17592186044416)"
    by (simp add: f64_eval)
  ultimately show ?thesis
    by (simp add: float_lit_201 compute_fill_201 sum_identity_def ratios_a)
qed

text \<open>
  C8, as amended. For every valid fill with finite values, the butane to add is the
  float product of missing gas and butane ratio, the propane to add that of missing gas
  and propane ratio, and the exact sum of the two amounts differs from the exact product
  of the missing gas with the sum of the ratios by no more than the two roundings allow:
  at most \<open>1 / 2 ^ 53\<close> of the sum of the two exact products in absolute value, plus
  \<open>1 / 2 ^ 1074\<close>.
\<close>

theorem fill_sum_rounded:
  assumes "compute_fill ty measured_weight = Inr r"
    and "missing_gas r = Fin m" and "ct_butane ty = Fin b" and "ct_propane ty = Fin p"
    and "butane_to_add r = Fin x" and "propane_to_add r = Fin y"
  shows "round64 (m * b) = Fin x \<and> round64 (m * p) = Fin y
    \<and> \<bar>(x + y) - m * (b + p)\<bar> \<le> (\<bar>m * b\<bar> + \<bar>m * p\<bar>) / 2 ^ 53 + 1 / 2 ^ 1074"
proof -
  from assms(1) have "butane_to_add r = fmul (missing_gas r) (ct_butane ty)"
    and "propane_to_add r = fmul (missing_gas r) (ct_propane ty)"
    by (auto simp: compute_fill_def Let_def split: if_splits)
  with assms have x: "round64 (m * b) = Fin x" and y: "round64 (m * p) = Fin y"
    by simp_all
  have ex: "\<bar>x - m * b\<bar> \<le> \<bar>m * b\<bar> / 2 ^ 53 + 1 / 2 ^ 1075" using x by (rule round64_error)
  have ey: "\<bar>y - m * p\<bar> \<le> \<bar>m * p\<bar> / 2 ^ 53 + 1 / 2 ^ 1075" using y by (rule round64_error)
  have "(x + y) - m * (b + p) = (x - m * b) + (y - m * p)" by (simp add: algebra_simps)
  then have "\<bar>(x + y) - m * (b + p)\<bar> \<le> \<bar>x - m * b\<bar> + \<bar>y - m * p\<bar>"
    by (simp only: abs_triangle_ineq)
  also have "\<dots> \<le> (\<bar>m * b\<bar> / 2 ^ 53 + 1 / 2 ^ 1075) + (\<bar>m * p\<bar> / 2 ^ 53 + 1 / 2 ^ 1075)"
    using ex ey by (rule add_mono)
  also have "\<dots> = (\<bar>m * b\<bar> + \<bar>m * p\<bar>) / 2 ^ 53 + 1 / 2 ^ 1074"
    by (simp add: add_divide_distrib)
  finally show ?thesis using x y by simp
qed

theorem fill_sum_rounded_witness:
  "compute_fill type_a (float_lit 201) =
     Inr \<lparr>gas_mass = Fin 1, missing_gas = Fin 399,
          butane_to_add = Fin (1228374390551347 / 4398046511104),
          propane_to_add = Fin (2105784669516595 / 17592186044416)\<rparr>
   \<and> ct_butane type_a = Fin (3152519739159347 / 4503599627370496)
   \<and> ct_propane type_a = Fin (5404319552844595 / 18014398509481984)
   \<and> round64 (399 * (3152519739159347 / 4503599627370496))
       = Fin (1228374390551347 / 4398046511104)
   \<and> \<bar>((1228374390551347 :: rat) / 4398046511104 + 2105784669516595 / 17592186044416)
        - 399 * (3152519739159347 / 4503599627370496 + 5404319552844595 / 18014398509481984)\<bar>
       \<le> (\<bar>399 * (3152519739159347 / 4503599627370496)\<bar>
           + \<bar>399 * (5404319552844595 / 18014398509481984)\<bar>) / 2 ^ 53 + 1 / 2 ^ 1074"
proof -
  let ?r = "\<lparr>gas_mass = Fin 1, missing_gas = Fin 399,
          butane_to_add = Fin (1228374390551347 / 4398046511104),
          propane_to_add = Fin (2105784669516595 / 17592186044416)\<rparr>"
  have h1: "compute_fill type_a (float_lit 201) = Inr ?r"
    by (simp only: float_lit_201 compute_fill_201)
  have h2: "missing_gas ?r = Fin 399" by simp
  have h3: "ct_butane type_a = Fin (3152519739159347 / 4503599627370496)"
    by (simp add: type_a_def float_lit_def f64_eval)
  have h4: "ct_propane type_a = Fin (5404319552844595 / 18014398509481984)"
    by (simp add: type_a_def float_lit_def f64_eval)
  have h5: "butane_to_add ?r = Fin (1228374390551347 / 4398046511104)" by simp
  have h6: "propane_to_add ?r = Fin (2105784669516595 / 17592186044416)" by simp
  note c = fill_sum_rounded [OF h1 h2 h3 h4 h5 h6]
  show ?thesis
    by (intro conjI) (rule h1 h3 h4 c [THEN conjunct1] c [THEN conjunct2, THEN conjunct2])+
qed

end
